theory Spec2Isabelle
  imports Complex_Main
begin

section \<open>Product details: data model\<close>

text \<open>
  The product-details screen works on view-model projections of the product data its
  fetch hook returns. A JavaScript field that may be \<^verbatim>\<open>undefined\<close> or
  \<^verbatim>\<open>null\<close> (the source reads it through \<^verbatim>\<open>?.\<close> or tests its truthiness) is an
  \<open>option\<close>; a JavaScript \<^verbatim>\<open>number\<close> is idealised as a real number (the source only
  compares numbers, and computes one quotient and one difference).
\<close>

type_synonym number = real

record variant_option =
  option_id :: "string option"
  option_value :: "string option"

record price =
  amount :: number
  currency_code :: string

record variant =
  variant_ident :: string
  variant_options :: "variant_option list option"
  variant_prices :: "price list option"

text \<open>
  \<^verbatim>\<open>selectedOptions\<close> is a \<^verbatim>\<open>Record<string, string>\<close>; the source only ever reads it
  through \<^verbatim>\<open>Object.entries\<close>, so it is modelled by its entry list.
\<close>

type_synonym selected_options = "(string \<times> string) list"


section \<open>Variant resolution\<close>

text \<open>
  \<^verbatim>\<open>(option) => option.option_id === optionId && option.value === value\<close>
\<close>

definition option_matches :: "string \<Rightarrow> string \<Rightarrow> variant_option \<Rightarrow> bool" where
  "option_matches optionId v opt \<longleftrightarrow>
     option_id opt = Some optionId \<and> option_value opt = Some v"

text \<open>
  \<^verbatim>\<open>([optionId, value]) => variant.options?.some(...)\<close>: a variant without an option
  list yields \<^verbatim>\<open>undefined\<close>, which \<^verbatim>\<open>every\<close> reads as false.
\<close>

definition variant_has :: "variant \<Rightarrow> string \<times> string \<Rightarrow> bool" where
  "variant_has variant = (\<lambda>(optionId, v).
     case variant_options variant of
       None \<Rightarrow> False
     | Some opts \<Rightarrow> list_ex (option_matches optionId v) opts)"

text \<open>
  \<^verbatim>\<open>(variant) => Object.entries(selectedOptions).every(...)\<close>
\<close>

definition variant_matches :: "selected_options \<Rightarrow> variant \<Rightarrow> bool" where
  "variant_matches selectedOptions variant \<longleftrightarrow>
     list_all (variant_has variant) selectedOptions"

text \<open>
  \<^verbatim>\<open>const selectedVariant = productQuery.data?.product.variants?.find(...)\<close>: the
  first matching variant, \<^verbatim>\<open>undefined\<close> when there is none or no variant list.
\<close>

definition selectedVariant :: "selected_options \<Rightarrow> variant list option \<Rightarrow> variant option" where
  "selectedVariant selectedOptions variants =
     (case variants of
        None \<Rightarrow> None
      | Some vs \<Rightarrow> find (variant_matches selectedOptions) vs)"


text \<open>
  Notation for the statements below: the pair \<open>p\<close> of an option id and a value appears
  in the option list of the variant \<open>v\<close>.
\<close>

abbreviation appears_in :: "string \<times> string \<Rightarrow> variant \<Rightarrow> bool" where
  "appears_in p v \<equiv>
     \<exists>opts. variant_options v = Some opts \<and>
       (\<exists>opt \<in> set opts. option_id opt = Some (fst p) \<and> option_value opt = Some (snd p))"


section \<open>Price lookup\<close>

text \<open>
  The settings hook's result, read through \<^verbatim>\<open>settings.data?.region?.currency_code\<close>.
\<close>

record region =
  region_currency_code :: "string option"

record settings_data =
  settings_region :: "region option"

record settings =
  settings_data :: "settings_data option"

text \<open>
  \<^verbatim>\<open>const currencyCode = settings.data?.region?.currency_code || 'eur'\<close>: the
  \<^verbatim>\<open>||\<close> falls back on every falsy value, so on the empty string as well.
\<close>

definition currencyCode :: "settings \<Rightarrow> string" where
  "currencyCode s =
     (case Option.bind (Option.bind (settings_data s) settings_region) region_currency_code of
        None \<Rightarrow> ''eur''
      | Some c \<Rightarrow> if c = [] then ''eur'' else c)"

text \<open>
  \<^verbatim>\<open>const price = selectedVariant?.prices?.find((price) => price.currency_code === currencyCode)\<close>
\<close>

definition variantPrice :: "variant option \<Rightarrow> string \<Rightarrow> price option" where
  "variantPrice selVariant code =
     (case selVariant of
        None \<Rightarrow> None
      | Some v \<Rightarrow>
          (case variant_prices v of
             None \<Rightarrow> None
           | Some ps \<Rightarrow> find (\<lambda>p. currency_code p = code) ps))"

text \<open>
  \<^verbatim>\<open>{price && (... price.amount.toLocaleString(undefined, {style: 'currency',
  currency: price.currency_code, ...}) ...)}\<close>: the price element is rendered exactly
  when a price entry was found, and shows that entry's amount formatted in that entry's
  currency. The formatting itself belongs to the platform; the rendered element is
  modelled by the amount and currency handed to it.
\<close>

definition priceElement :: "price option \<Rightarrow> (number \<times> string) option" where
  "priceElement p = (case p of None \<Rightarrow> None | Some e \<Rightarrow> Some (amount e, currency_code e))"


section \<open>Bottom sheet\<close>

text \<open>
  The sheet owns two shared animation values. Assigning a plain number sets the value;
  assigning \<^verbatim>\<open>withTiming\<close>, \<^verbatim>\<open>withDecay\<close> or \<^verbatim>\<open>withSpring\<close> hands the value to the
  animation driver. The completion callback given to \<^verbatim>\<open>withTiming\<close> is a function of
  the driver's \<^verbatim>\<open>finished\<close> flag; here it returns the external functions it causes to
  be called, in order. External functions (the props \<^verbatim>\<open>onClose\<close>, \<^verbatim>\<open>onOverlayPress\<close>,
  a caller's callback) are opaque values of type \<open>'f\<close>.
\<close>

datatype 'f animated =
    Value number
  | WithTiming number number "(bool \<Rightarrow> 'f list) option"
  | WithDecay number "number \<times> number"
  | WithSpring number number number

record 'f sheet =
  translateY :: "'f animated"
  overlayOpacity :: "'f animated"

record 'f bottom_sheet_props =
  dismissOnOverlayPress :: bool
  onClose :: "'f option"
  onOverlayPress :: "'f option"

record pan_event =
  translationY :: number
  velocityY :: number

text \<open>
  \<^verbatim>\<open>const handleClose = () => { onClose?.(); }\<close>
\<close>

definition handleClose :: "'f bottom_sheet_props \<Rightarrow> 'f list" where
  "handleClose props = (case onClose props of None \<Rightarrow> [] | Some f \<Rightarrow> [f])"

text \<open>
  \<^verbatim>\<open>(finished) => { if (finished) { scheduleOnRN(handleClose); } }\<close>, the completion
  callback shared by the drag and overlay-tap exits.
\<close>

definition closeWhenFinished :: "'f bottom_sheet_props \<Rightarrow> bool \<Rightarrow> 'f list" where
  "closeWhenFinished props finished = (if finished then handleClose props else [])"

text \<open>
  Every handler returns the sheet's new shared values together with the external
  functions it calls before it returns.

  \<^verbatim>\<open>animateOut(callback?)\<close>: both values get a 250 ms timed animation; only the
  opacity animation carries a completion callback,
  \<^verbatim>\<open>(finished) => { if (finished && callback) { scheduleOnRN(callback); } }\<close>.
\<close>

definition animateOut :: "'f option \<Rightarrow> 'f sheet \<Rightarrow> 'f sheet \<times> 'f list" where
  "animateOut callback s =
     (s\<lparr>translateY := WithTiming 300 250 None,
        overlayOpacity := WithTiming 0 250
          (Some (\<lambda>finished. case callback of
                    None \<Rightarrow> []
                  | Some cb \<Rightarrow> if finished then [cb] else []))\<rparr>,
      [])"

text \<open>
  \<^verbatim>\<open>panGesture.onChange\<close>
\<close>

definition onChange :: "pan_event \<Rightarrow> 'f sheet \<Rightarrow> 'f sheet \<times> 'f list" where
  "onChange event s =
     (if translationY event > 0
      then (s\<lparr>translateY := Value (translationY event),
               overlayOpacity := Value (max 0.3 (1 - translationY event / 200))\<rparr>, [])
      else (s, []))"

text \<open>
  \<^verbatim>\<open>panGesture.onFinalize\<close>
\<close>

definition shouldClose :: "pan_event \<Rightarrow> bool" where
  "shouldClose event \<longleftrightarrow> translationY event > 100 \<or> velocityY event > 500"

definition onFinalize :: "'f bottom_sheet_props \<Rightarrow> pan_event \<Rightarrow> 'f sheet \<Rightarrow> 'f sheet \<times> 'f list" where
  "onFinalize props event s =
     (if shouldClose event
      then
        (if \<bar>velocityY event\<bar> > 500
         then (s\<lparr>translateY := WithDecay (velocityY event) (0, 300),
                  overlayOpacity := WithTiming 0 250 (Some (closeWhenFinished props))\<rparr>, [])
         else (s\<lparr>translateY := WithTiming 300 250 None,
                  overlayOpacity := WithTiming 0 250 (Some (closeWhenFinished props))\<rparr>, []))
      else (s\<lparr>translateY := WithSpring 0 100 8,
               overlayOpacity := WithSpring 1 100 8\<rparr>, []))"

text \<open>
  \<^verbatim>\<open>overlayTapGesture\<close>, the handler of \<^verbatim>\<open>Gesture.Tap().onEnd\<close>
\<close>

definition overlayTap :: "'f bottom_sheet_props \<Rightarrow> 'f sheet \<Rightarrow> 'f sheet \<times> 'f list" where
  "overlayTap props s =
     (if dismissOnOverlayPress props
      then
        (case onOverlayPress props of
           Some f \<Rightarrow> (s, [f])
         | None \<Rightarrow>
             (s\<lparr>translateY := WithTiming 300 250 None,
                overlayOpacity := WithTiming 0 250 (Some (closeWhenFinished props))\<rparr>, []))
      else (s, []))"

text \<open>
  The animation driver's completion signal for one shared value: it runs the completion
  callback of the animation the value currently holds, passing whether the animation
  ran to its end (\<open>True\<close>) or was interrupted (\<open>False\<close>). A value that holds no
  animation, or an animation without a callback, calls nothing.
\<close>

fun completion :: "'f animated \<Rightarrow> bool \<Rightarrow> 'f list" where
  "completion (WithTiming target duration (Some callback)) finished = callback finished"
| "completion a finished = []"

text \<open>
  A drag sequence as the gesture recogniser delivers it: any number of change events,
  then one release. The calls made along the way are collected in order.
\<close>

fun panChanges :: "pan_event list \<Rightarrow> 'f sheet \<Rightarrow> 'f sheet \<times> 'f list" where
  "panChanges [] s = (s, [])"
| "panChanges (e # es) s =
     (case onChange e s of (s1, c1) \<Rightarrow>
        (case panChanges es s1 of (s2, c2) \<Rightarrow> (s2, c1 @ c2)))"

definition dragSequence ::
  "'f bottom_sheet_props \<Rightarrow> pan_event list \<Rightarrow> pan_event \<Rightarrow> 'f sheet \<Rightarrow> 'f sheet \<times> 'f list" where
  "dragSequence props changes release s =
     (case panChanges changes s of (s1, c1) \<Rightarrow>
        (case onFinalize props release s1 of (s2, c2) \<Rightarrow> (s2, c1 @ c2)))"

text \<open>
  The largest downward distance a drag sequence reaches, over its change events and its
  release; a sequence that never moves downward has peak 0.
\<close>

definition peakDistance :: "pan_event list \<Rightarrow> pan_event \<Rightarrow> number" where
  "peakDistance changes release =
     foldr (\<lambda>e m. max (translationY e) m) (changes @ [release]) 0"


section \<open>Add to order\<close>

record item =
  quantity :: number
  variant_id :: string

text \<open>
  The external functions the product-details screen calls: the add-to-order mutation
  with its item list, and the router.
\<close>

datatype screen_call =
    Mutate "item list"
  | RouterDismissTo string
  | RouterBack

text \<open>
  \<^verbatim>\<open><Button disabled={!selectedVariant} ...>\<close>
\<close>

definition addToCartDisabled :: "variant option \<Rightarrow> bool" where
  "addToCartDisabled selVariant \<longleftrightarrow> selVariant = None"

text \<open>
  The button's \<^verbatim>\<open>onPress\<close>: return at once without a variant, otherwise
  \<^verbatim>\<open>addToDraftOrder.mutate({items: [{quantity, variant_id: selectedVariant.id}]}, ...)\<close>.
\<close>

definition addToCartPress :: "variant option \<Rightarrow> number \<Rightarrow> screen_call list" where
  "addToCartPress selVariant q =
     (case selVariant of
        None \<Rightarrow> []
      | Some v \<Rightarrow> [Mutate [\<lparr>quantity = q, variant_id = variant_ident v\<rparr>]])"

text \<open>
  The mutation's \<^verbatim>\<open>onSuccess\<close>:
  \<^verbatim>\<open>() => { animateOut(); router.dismissTo('/(tabs)/cart'); }\<close>
\<close>

definition onSuccess :: "screen_call sheet \<Rightarrow> screen_call sheet \<times> screen_call list" where
  "onSuccess s =
     (case animateOut None s of (s1, c1) \<Rightarrow> (s1, c1 @ [RouterDismissTo ''/(tabs)/cart'']))"

text \<open>
  The props \<^verbatim>\<open>ProductDetailsScreen\<close> gives the sheet:
  \<^verbatim>\<open><BottomSheet visible={visible} onClose={() => router.back()}
  showCloseButton={false} dismissOnOverlayPress>\<close>
\<close>

definition screenProps :: "screen_call bottom_sheet_props" where
  "screenProps = \<lparr>dismissOnOverlayPress = True, onClose = Some RouterBack, onOverlayPress = None\<rparr>"


section \<open>Properties of variant resolution\<close>

text \<open>
  A selected pair appears in a variant's option list exactly when the source's
  \<^verbatim>\<open>some\<close> test succeeds.
\<close>

lemma variant_has_iff:
  "variant_has v (k, x) \<longleftrightarrow>
     (\<exists>opts. variant_options v = Some opts \<and>
        (\<exists>opt \<in> set opts. option_id opt = Some k \<and> option_value opt = Some x))"
  by (auto simp: variant_has_def option_matches_def list_ex_iff split: option.splits)

lemma variant_matches_iff:
  "variant_matches m v \<longleftrightarrow> (\<forall>p \<in> set m. variant_has v p)"
  by (simp add: variant_matches_def list_all_iff)

lemma selectedVariant_Some_D:
  assumes "selectedVariant m variants = Some v"
  shows "\<exists>vs. variants = Some vs \<and> v \<in> set vs \<and> variant_matches m v"
proof (cases variants)
  case None
  with assms show ?thesis by (simp add: selectedVariant_def)
next
  case (Some vs)
  with assms have "find (variant_matches m) vs = Some v"
    by (simp add: selectedVariant_def)
  then have "v \<in> set vs \<and> variant_matches m v"
    by (auto simp: find_Some_iff)
  with Some show ?thesis by simp
qed

lemma selectedVariant_None_I:
  assumes "\<And>vs v. variants = Some vs \<Longrightarrow> v \<in> set vs \<Longrightarrow> \<not> variant_matches m v"
  shows "selectedVariant m variants = None"
proof (cases variants)
  case None
  then show ?thesis by (simp add: selectedVariant_def)
next
  case (Some vs)
  with assms have "\<forall>v \<in> set vs. \<not> variant_matches m v" by blast
  then have "find (variant_matches m) vs = None"
    by (simp add: find_None_iff)
  with Some show ?thesis by (simp add: selectedVariant_def)
qed

lemma variant_has_appears: "variant_has v p \<longleftrightarrow> appears_in p v"
  by (cases p) (simp add: variant_has_iff)

lemma selectedVariant_contradicted:
  assumes "\<forall>w \<in> set vs. \<exists>p \<in> set m. \<not> appears_in p w"
  shows "selectedVariant m (Some vs) = None"
proof (rule selectedVariant_None_I)
  fix ws w
  assume "Some vs = Some ws" "w \<in> set ws"
  with assms obtain p where "p \<in> set m" "\<not> variant_has w p"
    unfolding variant_has_appears by blast
  then show "\<not> variant_matches m w"
    by (auto simp: variant_matches_iff)
qed

lemma selectedVariant_empty:
  "selectedVariant [] variants = (case variants of Some (v # vs) \<Rightarrow> Some v | _ \<Rightarrow> None)"
  by (simp add: selectedVariant_def variant_matches_def split: option.splits list.splits)

text \<open>
  C1, as stated, has resolution return no variant for an empty mapping. With nothing
  selected, \<^verbatim>\<open>every\<close> holds of each variant, so \<^verbatim>\<open>find\<close> returns the first one.
\<close>

theorem selectedVariant_empty_counterexample:
  "selectedVariant []
     (Some [\<lparr>variant_ident = ''v_red'',
             variant_options = Some [\<lparr>option_id = Some ''color'', option_value = Some ''Red''\<rparr>],
             variant_prices = None\<rparr>])
   = Some \<lparr>variant_ident = ''v_red'',
           variant_options = Some [\<lparr>option_id = Some ''color'', option_value = Some ''Red''\<rparr>],
           variant_prices = None\<rparr>"
  by (simp add: selectedVariant_def variant_matches_def)

text \<open>
  C1 (as amended). With an empty selected-options mapping, resolution returns the first
  variant of the list, and no variant only when the list is empty or missing. When the
  mapping contradicts every variant (each variant lacks at least one selected pair),
  resolution returns no variant.
\<close>

theorem selectedVariant_empty_or_contradicted:
  "selectedVariant [] variants = (case variants of Some (v # vs) \<Rightarrow> Some v | _ \<Rightarrow> None) \<and>
   ((\<forall>w \<in> set ws. \<exists>p \<in> set m. \<not> appears_in p w) \<longrightarrow> selectedVariant m (Some ws) = None)"
  using selectedVariant_empty selectedVariant_contradicted by blast

theorem selectedVariant_empty_or_contradicted_witness:
  "selectedVariant []
     (Some [\<lparr>variant_ident = ''v_red'',
             variant_options = Some [\<lparr>option_id = Some ''color'', option_value = Some ''Red''\<rparr>],
             variant_prices = None\<rparr>])
   = Some \<lparr>variant_ident = ''v_red'',
           variant_options = Some [\<lparr>option_id = Some ''color'', option_value = Some ''Red''\<rparr>],
           variant_prices = None\<rparr> \<and>
   \<not> appears_in (''color'', ''Blue'')
       \<lparr>variant_ident = ''v_red'',
        variant_options = Some [\<lparr>option_id = Some ''color'', option_value = Some ''Red''\<rparr>],
        variant_prices = None\<rparr> \<and>
   selectedVariant [(''color'', ''Blue'')]
     (Some [\<lparr>variant_ident = ''v_red'',
             variant_options = Some [\<lparr>option_id = Some ''color'', option_value = Some ''Red''\<rparr>],
             variant_prices = None\<rparr>]) = None"
  using selectedVariant_empty_or_contradicted
    [of "Some [\<lparr>variant_ident = ''v_red'',
             variant_options = Some [\<lparr>option_id = Some ''color'', option_value = Some ''Red''\<rparr>],
             variant_prices = None\<rparr>]"
        "[\<lparr>variant_ident = ''v_red'',
             variant_options = Some [\<lparr>option_id = Some ''color'', option_value = Some ''Red''\<rparr>],
             variant_prices = None\<rparr>]"
        "[(''color'', ''Blue'')]"]
  by simp

text \<open>
  C2. Resolution returns at most one variant (its result is an optional variant). A
  returned variant is one of the list and every selected pair appears in its option
  list; when every variant lacks some selected pair, the result is absence. The function
  is total: no input makes it fail.
\<close>

theorem selectedVariant_superset:
  "(selectedVariant m variants = Some v \<longrightarrow>
      (\<exists>vs. variants = Some vs \<and> v \<in> set vs) \<and> (\<forall>p \<in> set m. appears_in p v)) \<and>
   ((\<forall>vs. variants = Some vs \<longrightarrow> (\<forall>w \<in> set vs. \<exists>p \<in> set m. \<not> appears_in p w)) \<longrightarrow>
      selectedVariant m variants = None)"
proof (intro conjI impI)
  assume "selectedVariant m variants = Some v"
  then obtain vs where vs: "variants = Some vs" "v \<in> set vs" "variant_matches m v"
    using selectedVariant_Some_D by blast
  from vs show "\<exists>vs. variants = Some vs \<and> v \<in> set vs" by blast
  from vs(3) show "\<forall>p \<in> set m. appears_in p v"
    by (simp add: variant_matches_iff variant_has_appears)
next
  assume contra: "\<forall>vs. variants = Some vs \<longrightarrow> (\<forall>w \<in> set vs. \<exists>p \<in> set m. \<not> appears_in p w)"
  show "selectedVariant m variants = None"
  proof (cases variants)
    case None
    then show ?thesis by (simp add: selectedVariant_def)
  next
    case (Some vs)
    with contra show ?thesis by (simp add: selectedVariant_contradicted)
  qed
qed

theorem selectedVariant_superset_witness:
  "selectedVariant [(''color'', ''Blue'')]
     (Some [\<lparr>variant_ident = ''v_red'',
             variant_options = Some [\<lparr>option_id = Some ''color'', option_value = Some ''Red''\<rparr>],
             variant_prices = None\<rparr>,
            \<lparr>variant_ident = ''v_blue'',
             variant_options = Some [\<lparr>option_id = Some ''color'', option_value = Some ''Blue''\<rparr>],
             variant_prices = None\<rparr>])
   = Some \<lparr>variant_ident = ''v_blue'',
           variant_options = Some [\<lparr>option_id = Some ''color'', option_value = Some ''Blue''\<rparr>],
           variant_prices = None\<rparr> \<and>
   appears_in (''color'', ''Blue'')
       \<lparr>variant_ident = ''v_blue'',
        variant_options = Some [\<lparr>option_id = Some ''color'', option_value = Some ''Blue''\<rparr>],
        variant_prices = None\<rparr> \<and>
   \<not> appears_in (''color'', ''Green'')
       \<lparr>variant_ident = ''v_red'',
        variant_options = Some [\<lparr>option_id = Some ''color'', option_value = Some ''Red''\<rparr>],
        variant_prices = None\<rparr> \<and>
   selectedVariant [(''color'', ''Green'')]
     (Some [\<lparr>variant_ident = ''v_red'',
             variant_options = Some [\<lparr>option_id = Some ''color'', option_value = Some ''Red''\<rparr>],
             variant_prices = None\<rparr>]) = None"
  using selectedVariant_superset
    [of "[(''color'', ''Blue'')]"
        "Some [\<lparr>variant_ident = ''v_red'',
             variant_options = Some [\<lparr>option_id = Some ''color'', option_value = Some ''Red''\<rparr>],
             variant_prices = None\<rparr>,
            \<lparr>variant_ident = ''v_blue'',
             variant_options = Some [\<lparr>option_id = Some ''color'', option_value = Some ''Blue''\<rparr>],
             variant_prices = None\<rparr>]"
        "\<lparr>variant_ident = ''v_blue'',
           variant_options = Some [\<lparr>option_id = Some ''color'', option_value = Some ''Blue''\<rparr>],
           variant_prices = None\<rparr>"]
    selectedVariant_superset
    [of "[(''color'', ''Green'')]"
        "Some [\<lparr>variant_ident = ''v_red'',
             variant_options = Some [\<lparr>option_id = Some ''color'', option_value = Some ''Red''\<rparr>],
             variant_prices = None\<rparr>]"]
  by (simp add: selectedVariant_def variant_matches_def variant_has_def option_matches_def)


section \<open>Properties of the price lookup and the add-to-order action\<close>

text \<open>
  \<^verbatim>\<open>find\<close> returns the first element that satisfies the test.
\<close>

lemma find_first_match:
  assumes "\<exists>x \<in> set xs. P x"
  shows "\<exists>pre x post. xs = pre @ x # post \<and> (\<forall>y \<in> set pre. \<not> P y) \<and> P x \<and> find P xs = Some x"
proof -
  from assms obtain x where "find P xs = Some x"
    by (cases "find P xs") (auto simp: find_None_iff)
  then obtain i where i: "i < length xs" "P (xs ! i)" "x = xs ! i" "\<forall>j<i. \<not> P (xs ! j)"
    by (auto simp: find_Some_iff)
  have "xs = take i xs @ x # drop (Suc i) xs"
    using i(1,3) by (simp add: id_take_nth_drop)
  moreover have "\<forall>y \<in> set (take i xs). \<not> P y"
    using i(1,4) by (auto simp: in_set_conv_nth)
  ultimately show ?thesis
    using i(2,3) \<open>find P xs = Some x\<close> by blast
qed

text \<open>
  The active currency code is the code the settings provide, and \<^verbatim>\<open>'eur'\<close> when any
  link of the chain is missing or the code is the empty string.
\<close>

lemma currencyCode_cases:
  "currencyCode st =
     (case settings_data st of
        None \<Rightarrow> ''eur''
      | Some d \<Rightarrow>
          (case settings_region d of
             None \<Rightarrow> ''eur''
           | Some r \<Rightarrow>
               (case region_currency_code r of
                  None \<Rightarrow> ''eur''
                | Some c \<Rightarrow> if c = [] then ''eur'' else c)))"
  by (simp add: currencyCode_def split: option.splits)

text \<open>
  C6. For the resolved variant \<open>v\<close> and the active currency code: when a price entry of
  \<open>v\<close> has that currency, the price found is such an entry (the first one in list
  order) and the price element shows its amount in that currency; when no entry matches,
  or the variant has no price list, no price is found and no price element is rendered.
\<close>

theorem price_in_active_currency:
  "(variant_prices v = Some ps \<and> (\<exists>p \<in> set ps. currency_code p = currencyCode st) \<longrightarrow>
      (\<exists>pre p post. ps = pre @ p # post \<and>
          (\<forall>q \<in> set pre. currency_code q \<noteq> currencyCode st) \<and>
          currency_code p = currencyCode st \<and>
          variantPrice (Some v) (currencyCode st) = Some p \<and>
          priceElement (variantPrice (Some v) (currencyCode st)) = Some (amount p, currencyCode st))) \<and>
   (variant_prices v = None \<or>
    (\<exists>ps. variant_prices v = Some ps \<and> (\<forall>p \<in> set ps. currency_code p \<noteq> currencyCode st)) \<longrightarrow>
      variantPrice (Some v) (currencyCode st) = None \<and>
      priceElement (variantPrice (Some v) (currencyCode st)) = None)"
proof (intro conjI impI)
  assume a: "variant_prices v = Some ps \<and> (\<exists>p \<in> set ps. currency_code p = currencyCode st)"
  then obtain pre p post where p: "ps = pre @ p # post"
      "\<forall>q \<in> set pre. \<not> currency_code q = currencyCode st"
      "currency_code p = currencyCode st"
      "find (\<lambda>p. currency_code p = currencyCode st) ps = Some p"
    using find_first_match [of ps "\<lambda>p. currency_code p = currencyCode st"] by blast
  from a p(4) have "variantPrice (Some v) (currencyCode st) = Some p"
    by (simp add: variantPrice_def)
  with p(1-3) show "\<exists>pre p post. ps = pre @ p # post \<and>
          (\<forall>q \<in> set pre. currency_code q \<noteq> currencyCode st) \<and>
          currency_code p = currencyCode st \<and>
          variantPrice (Some v) (currencyCode st) = Some p \<and>
          priceElement (variantPrice (Some v) (currencyCode st)) = Some (amount p, currencyCode st)"
    by (auto simp: priceElement_def)
next
  assume "variant_prices v = None \<or>
    (\<exists>ps. variant_prices v = Some ps \<and> (\<forall>p \<in> set ps. currency_code p \<noteq> currencyCode st))"
  then have "variantPrice (Some v) (currencyCode st) = None"
    by (auto simp: variantPrice_def find_None_iff)
  then show "variantPrice (Some v) (currencyCode st) = None"
    and "priceElement (variantPrice (Some v) (currencyCode st)) = None"
    by (simp_all add: priceElement_def)
qed

theorem price_in_active_currency_witness:
  "currencyCode \<lparr>settings_data = Some \<lparr>settings_region = Some \<lparr>region_currency_code = Some ''usd''\<rparr>\<rparr>\<rparr> = ''usd'' \<and>
   currencyCode \<lparr>settings_data = None\<rparr> = ''eur'' \<and>
   priceElement (variantPrice
      (Some \<lparr>variant_ident = ''v_blue'', variant_options = None,
             variant_prices = Some [\<lparr>amount = 10, currency_code = ''eur''\<rparr>,
                                    \<lparr>amount = 12, currency_code = ''usd''\<rparr>]\<rparr>)
      (currencyCode \<lparr>settings_data = Some \<lparr>settings_region = Some \<lparr>region_currency_code = Some ''usd''\<rparr>\<rparr>\<rparr>))
     = Some (12, ''usd'') \<and>
   priceElement (variantPrice
      (Some \<lparr>variant_ident = ''v_blue'', variant_options = None,
             variant_prices = Some [\<lparr>amount = 12, currency_code = ''usd''\<rparr>]\<rparr>)
      (currencyCode \<lparr>settings_data = None\<rparr>))
     = None"
  using price_in_active_currency
    [where v = "\<lparr>variant_ident = ''v_blue'', variant_options = None,
             variant_prices = Some [\<lparr>amount = 10, currency_code = ''eur''\<rparr>,
                                    \<lparr>amount = 12, currency_code = ''usd''\<rparr>]\<rparr>"
       and ps = "[\<lparr>amount = 10, currency_code = ''eur''\<rparr>, \<lparr>amount = 12, currency_code = ''usd''\<rparr>]"
       and st = "\<lparr>settings_data = Some \<lparr>settings_region = Some \<lparr>region_currency_code = Some ''usd''\<rparr>\<rparr>\<rparr>"]
    price_in_active_currency
    [where v = "\<lparr>variant_ident = ''v_blue'', variant_options = None,
             variant_prices = Some [\<lparr>amount = 12, currency_code = ''usd''\<rparr>]\<rparr>"
       and st = "\<lparr>settings_data = None\<rparr>"]
  by (simp add: currencyCode_def variantPrice_def priceElement_def)

text \<open>
  C7. With a resolved variant \<open>v\<close> and quantity \<open>q\<close>, the button is enabled and a press
  submits exactly one mutation whose item list is the single item
  \<open>{quantity: q, variant_id: v.id}\<close>; with no resolved variant the button is disabled and
  its press handler submits nothing.
\<close>

theorem add_to_order_payload:
  "(selectedVariant m variants = Some v \<longrightarrow>
      \<not> addToCartDisabled (selectedVariant m variants) \<and>
      addToCartPress (selectedVariant m variants) q =
        [Mutate [\<lparr>quantity = q, variant_id = variant_ident v\<rparr>]]) \<and>
   (selectedVariant m variants = None \<longrightarrow>
      addToCartDisabled (selectedVariant m variants) \<and>
      addToCartPress (selectedVariant m variants) q = [])"
  by (simp add: addToCartDisabled_def addToCartPress_def)

theorem add_to_order_payload_witness:
  "selectedVariant [(''color'', ''Blue'')]
     (Some [\<lparr>variant_ident = ''v_red'',
             variant_options = Some [\<lparr>option_id = Some ''color'', option_value = Some ''Red''\<rparr>],
             variant_prices = None\<rparr>,
            \<lparr>variant_ident = ''v_blue'',
             variant_options = Some [\<lparr>option_id = Some ''color'', option_value = Some ''Blue''\<rparr>],
             variant_prices = None\<rparr>])
   = Some \<lparr>variant_ident = ''v_blue'',
           variant_options = Some [\<lparr>option_id = Some ''color'', option_value = Some ''Blue''\<rparr>],
           variant_prices = None\<rparr> \<and>
   addToCartPress (selectedVariant [(''color'', ''Blue'')]
     (Some [\<lparr>variant_ident = ''v_red'',
             variant_options = Some [\<lparr>option_id = Some ''color'', option_value = Some ''Red''\<rparr>],
             variant_prices = None\<rparr>,
            \<lparr>variant_ident = ''v_blue'',
             variant_options = Some [\<lparr>option_id = Some ''color'', option_value = Some ''Blue''\<rparr>],
             variant_prices = None\<rparr>])) 2
   = [Mutate [\<lparr>quantity = 2, variant_id = ''v_blue''\<rparr>]] \<and>
   selectedVariant [(''color'', ''Blue'')] (Some []) = None \<and>
   addToCartDisabled (selectedVariant [(''color'', ''Blue'')] (Some [])) \<and>
   addToCartPress (selectedVariant [(''color'', ''Blue'')] (Some [])) 2 = []"
  using add_to_order_payload
    [where m = "[(''color'', ''Blue'')]"
       and variants = "Some [\<lparr>variant_ident = ''v_red'',
             variant_options = Some [\<lparr>option_id = Some ''color'', option_value = Some ''Red''\<rparr>],
             variant_prices = None\<rparr>,
            \<lparr>variant_ident = ''v_blue'',
             variant_options = Some [\<lparr>option_id = Some ''color'', option_value = Some ''Blue''\<rparr>],
             variant_prices = None\<rparr>]"
       and v = "\<lparr>variant_ident = ''v_blue'',
           variant_options = Some [\<lparr>option_id = Some ''color'', option_value = Some ''Blue''\<rparr>],
           variant_prices = None\<rparr>"
       and q = 2]
    add_to_order_payload [where m = "[(''color'', ''Blue'')]" and variants = "Some []" and q = 2]
  by (simp add: selectedVariant_def variant_matches_def variant_has_def option_matches_def)


section \<open>Properties of the bottom sheet\<close>

text \<open>
  The pan handlers call no external function themselves, so a drag sequence is its
  release handler run on the values its change events left.
\<close>

lemma onChange_calls: "snd (onChange e s) = []"
  by (simp add: onChange_def)

lemma panChanges_calls: "snd (panChanges es s) = []"
proof (induction es arbitrary: s)
  case Nil
  show ?case by simp
next
  case (Cons e es)
  obtain s1 c1 where e: "onChange e s = (s1, c1)" by (cases "onChange e s")
  obtain s2 c2 where es: "panChanges es s1 = (s2, c2)" by (cases "panChanges es s1")
  from e have "c1 = []" using onChange_calls [of e s] by simp
  moreover from es have "c2 = []" using Cons.IH [of s1] by simp
  ultimately show ?case using e es by simp
qed

lemma dragSequence_eq:
  "dragSequence props changes release s = onFinalize props release (fst (panChanges changes s))"
proof -
  obtain s1 c1 where p: "panChanges changes s = (s1, c1)" by (cases "panChanges changes s")
  then have c1: "c1 = []" using panChanges_calls [of changes s] by simp
  obtain s2 c2 where f: "onFinalize props release s1 = (s2, c2)"
    by (cases "onFinalize props release s1")
  from p c1 f show ?thesis by (simp add: dragSequence_def)
qed

lemma foldr_max_upper:
  "e \<in> set es \<Longrightarrow> translationY e \<le> foldr (\<lambda>e m. max (translationY e) m) es a"
  by (induction es) auto

text \<open>
  The release distance is at most the peak distance of the sequence.
\<close>

lemma release_le_peak: "translationY release \<le> peakDistance changes release"
  unfolding peakDistance_def by (rule foldr_max_upper) simp

lemma handleClose_supplied: "onClose props = Some f \<Longrightarrow> handleClose props = [f]"
  by (simp add: handleClose_def)

text \<open>
  C8. A change event with translation \<open>d > 0\<close> sets the vertical offset to \<open>d\<close> and
  the overlay opacity to \<open>max 0.3 (1 - d / 200)\<close>: a value falling linearly with \<open>d\<close>,
  floored at 0.3. A change event with \<open>d \<le> 0\<close> leaves both values as they are. Neither
  calls an external function.
\<close>

theorem onChange_downward_only:
  "(translationY e > 0 \<longrightarrow>
      onChange e s =
        (s\<lparr>translateY := Value (translationY e),
           overlayOpacity := Value (max 0.3 (1 - translationY e / 200))\<rparr>, [])) \<and>
   (translationY e \<le> 0 \<longrightarrow> onChange e s = (s, []))"
  by (simp add: onChange_def)

theorem onChange_downward_only_witness:
  "translationY \<lparr>translationY = 50, velocityY = 0\<rparr> > 0 \<and>
   onChange \<lparr>translationY = 50, velocityY = 0\<rparr>
       (\<lparr>translateY = Value 0, overlayOpacity = Value 1\<rparr> :: screen_call sheet)
     = (\<lparr>translateY = Value 50, overlayOpacity = Value 0.75\<rparr>, []) \<and>
   translationY \<lparr>translationY = 180, velocityY = 0\<rparr> > 0 \<and>
   onChange \<lparr>translationY = 180, velocityY = 0\<rparr>
       (\<lparr>translateY = Value 0, overlayOpacity = Value 1\<rparr> :: screen_call sheet)
     = (\<lparr>translateY = Value 180, overlayOpacity = Value 0.3\<rparr>, []) \<and>
   translationY \<lparr>translationY = - 20, velocityY = 0\<rparr> \<le> 0 \<and>
   onChange \<lparr>translationY = - 20, velocityY = 0\<rparr>
       (\<lparr>translateY = Value 0, overlayOpacity = Value 1\<rparr> :: screen_call sheet)
     = (\<lparr>translateY = Value 0, overlayOpacity = Value 1\<rparr>, [])"
  using onChange_downward_only
      [where e = "\<lparr>translationY = 50, velocityY = 0\<rparr>"
         and s = "\<lparr>translateY = Value 0, overlayOpacity = Value 1\<rparr> :: screen_call sheet"]
    onChange_downward_only
      [where e = "\<lparr>translationY = 180, velocityY = 0\<rparr>"
         and s = "\<lparr>translateY = Value 0, overlayOpacity = Value 1\<rparr> :: screen_call sheet"]
    onChange_downward_only
      [where e = "\<lparr>translationY = - 20, velocityY = 0\<rparr>"
         and s = "\<lparr>translateY = Value 0, overlayOpacity = Value 1\<rparr> :: screen_call sheet"]
  by simp

text \<open>
  C9. \<^verbatim>\<open>animateOut\<close> calls nothing itself and starts the two timed exit animations. Only
  the opacity animation carries a completion callback: run with \<open>finished\<close> true and a
  callback supplied, it invokes that callback exactly once; run for an interrupted
  animation, or with no callback supplied, it invokes nothing.
\<close>

theorem animateOut_callback:
  "snd (animateOut callback s) = [] \<and>
   translateY (fst (animateOut callback s)) = WithTiming 300 250 None \<and>
   (\<exists>c. overlayOpacity (fst (animateOut callback s)) = WithTiming 0 250 (Some c)) \<and>
   (finished \<and> callback = Some cb \<longrightarrow>
      completion (overlayOpacity (fst (animateOut callback s))) finished = [cb]) \<and>
   (\<not> finished \<or> callback = None \<longrightarrow>
      completion (overlayOpacity (fst (animateOut callback s))) finished = []) \<and>
   completion (translateY (fst (animateOut callback s))) finished = []"
  by (auto simp: animateOut_def split: option.splits)

theorem animateOut_callback_witness:
  "snd (animateOut (Some RouterBack) \<lparr>translateY = Value 0, overlayOpacity = Value 1\<rparr>) = [] \<and>
   completion (overlayOpacity (fst (animateOut (Some RouterBack)
       \<lparr>translateY = Value 0, overlayOpacity = Value 1\<rparr>))) True = [RouterBack] \<and>
   completion (overlayOpacity (fst (animateOut (Some RouterBack)
       \<lparr>translateY = Value 0, overlayOpacity = Value 1\<rparr>))) False = [] \<and>
   completion (overlayOpacity (fst (animateOut (None :: screen_call option)
       \<lparr>translateY = Value 0, overlayOpacity = Value 1\<rparr>))) True = []"
  using animateOut_callback
      [where callback = "Some RouterBack" and cb = RouterBack and finished = True
         and s = "\<lparr>translateY = Value 0, overlayOpacity = Value 1\<rparr>"]
    animateOut_callback
      [where callback = "Some RouterBack" and finished = False
         and s = "\<lparr>translateY = Value 0, overlayOpacity = Value 1\<rparr>"]
    animateOut_callback
      [where callback = "None :: screen_call option" and finished = True
         and s = "\<lparr>translateY = Value 0, overlayOpacity = Value 1\<rparr>"]
  by simp

text \<open>
  C10. An overlay tap does nothing when \<^verbatim>\<open>dismissOnOverlayPress\<close> is false. When it is
  true and \<^verbatim>\<open>onOverlayPress\<close> is supplied, the tap calls that handler only and leaves
  the shared values untouched: no exit animation starts and no close is pending. When it
  is true and no handler is supplied, the tap calls nothing itself and starts the timed
  exit animation, whose completion callback runs \<^verbatim>\<open>handleClose\<close> (so \<^verbatim>\<open>onClose\<close>, when
  supplied, exactly once) if the animation finished and nothing if it was interrupted.
\<close>

theorem overlayTap_cases:
  "(\<not> dismissOnOverlayPress props \<longrightarrow> overlayTap props s = (s, [])) \<and>
   (dismissOnOverlayPress props \<and> onOverlayPress props = Some h \<longrightarrow>
      overlayTap props s = (s, [h])) \<and>
   (dismissOnOverlayPress props \<and> onOverlayPress props = None \<longrightarrow>
      snd (overlayTap props s) = [] \<and>
      translateY (fst (overlayTap props s)) = WithTiming 300 250 None \<and>
      (\<exists>c. overlayOpacity (fst (overlayTap props s)) = WithTiming 0 250 (Some c)) \<and>
      completion (overlayOpacity (fst (overlayTap props s))) True = handleClose props \<and>
      (\<forall>f. onClose props = Some f \<longrightarrow>
         completion (overlayOpacity (fst (overlayTap props s))) True = [f]) \<and>
      completion (overlayOpacity (fst (overlayTap props s))) False = [] \<and>
      completion (translateY (fst (overlayTap props s))) finished = [])"
  by (auto simp: overlayTap_def closeWhenFinished_def handleClose_def)

theorem overlayTap_cases_witness:
  "overlayTap \<lparr>dismissOnOverlayPress = False, onClose = Some RouterBack, onOverlayPress = None\<rparr>
       \<lparr>translateY = Value 0, overlayOpacity = Value 1\<rparr>
     = (\<lparr>translateY = Value 0, overlayOpacity = Value 1\<rparr>, []) \<and>
   overlayTap \<lparr>dismissOnOverlayPress = True, onClose = Some RouterBack,
               onOverlayPress = Some (RouterDismissTo ''/'')\<rparr>
       \<lparr>translateY = Value 0, overlayOpacity = Value 1\<rparr>
     = (\<lparr>translateY = Value 0, overlayOpacity = Value 1\<rparr>, [RouterDismissTo ''/'']) \<and>
   dismissOnOverlayPress screenProps \<and> onOverlayPress screenProps = None \<and>
   onClose screenProps = Some RouterBack \<and>
   snd (overlayTap screenProps \<lparr>translateY = Value 0, overlayOpacity = Value 1\<rparr>) = [] \<and>
   completion (overlayOpacity (fst (overlayTap screenProps
       \<lparr>translateY = Value 0, overlayOpacity = Value 1\<rparr>))) True = [RouterBack] \<and>
   completion (overlayOpacity (fst (overlayTap screenProps
       \<lparr>translateY = Value 0, overlayOpacity = Value 1\<rparr>))) False = []"
  using overlayTap_cases
      [where props = "\<lparr>dismissOnOverlayPress = False, onClose = Some RouterBack, onOverlayPress = None\<rparr>"
         and finished = True
         and s = "\<lparr>translateY = Value 0, overlayOpacity = Value 1\<rparr>"]
    overlayTap_cases
      [where props = "\<lparr>dismissOnOverlayPress = True, onClose = Some RouterBack,
               onOverlayPress = Some (RouterDismissTo ''/'')\<rparr>"
         and h = "RouterDismissTo ''/''"
         and finished = True
         and s = "\<lparr>translateY = Value 0, overlayOpacity = Value 1\<rparr>"]
    overlayTap_cases
      [where props = screenProps
         and finished = True
         and s = "\<lparr>translateY = Value 0, overlayOpacity = Value 1\<rparr>"]
  by (simp add: screenProps_def handleClose_def)

text \<open>
  C3. Take a drag sequence whose release exceeds the distance threshold (100) or the
  speed threshold (500). The sequence's handlers call no external function themselves.
  The release starts the timed fade of the overlay, and that animation is the only one
  carrying a completion callback. When the driver's completion signal reports the
  animation finished, the callback runs \<^verbatim>\<open>handleClose\<close>, which calls the supplied
  \<^verbatim>\<open>onClose\<close> exactly once; when it reports an interruption, nothing is called.
\<close>

theorem drag_release_closes_once:
  assumes "translationY release > 100 \<or> velocityY release > 500"
  shows "snd (dragSequence props changes release s) = [] \<and>
    (\<exists>c. overlayOpacity (fst (dragSequence props changes release s)) =
       WithTiming 0 250 (Some c)) \<and>
    completion (overlayOpacity (fst (dragSequence props changes release s))) True =
       handleClose props \<and>
    (\<forall>f. onClose props = Some f \<longrightarrow>
       completion (overlayOpacity (fst (dragSequence props changes release s))) True = [f]) \<and>
    completion (overlayOpacity (fst (dragSequence props changes release s))) False = [] \<and>
    completion (translateY (fst (dragSequence props changes release s))) finished = []"
proof -
  from assms have close: "shouldClose release" by (simp add: shouldClose_def)
  show ?thesis
  proof (cases "\<bar>velocityY release\<bar> > 500")
    case True
    with close show ?thesis
      by (simp add: dragSequence_eq onFinalize_def closeWhenFinished_def handleClose_supplied)
  next
    case False
    with close show ?thesis
      by (simp add: dragSequence_eq onFinalize_def closeWhenFinished_def handleClose_supplied)
  qed
qed

theorem drag_release_closes_once_witness:
  "translationY \<lparr>translationY = 150, velocityY = 100\<rparr> > 100 \<and>
   snd (dragSequence screenProps
          [\<lparr>translationY = 40, velocityY = 100\<rparr>, \<lparr>translationY = 150, velocityY = 100\<rparr>]
          \<lparr>translationY = 150, velocityY = 100\<rparr>
          \<lparr>translateY = Value 0, overlayOpacity = Value 1\<rparr>) = [] \<and>
   completion (overlayOpacity (fst (dragSequence screenProps
          [\<lparr>translationY = 40, velocityY = 100\<rparr>, \<lparr>translationY = 150, velocityY = 100\<rparr>]
          \<lparr>translationY = 150, velocityY = 100\<rparr>
          \<lparr>translateY = Value 0, overlayOpacity = Value 1\<rparr>))) True = [RouterBack] \<and>
   velocityY \<lparr>translationY = 20, velocityY = 800\<rparr> > 500 \<and>
   completion (overlayOpacity (fst (dragSequence screenProps
          [\<lparr>translationY = 20, velocityY = 800\<rparr>]
          \<lparr>translationY = 20, velocityY = 800\<rparr>
          \<lparr>translateY = Value 0, overlayOpacity = Value 1\<rparr>))) True = [RouterBack] \<and>
   completion (overlayOpacity (fst (dragSequence screenProps
          [\<lparr>translationY = 20, velocityY = 800\<rparr>]
          \<lparr>translationY = 20, velocityY = 800\<rparr>
          \<lparr>translateY = Value 0, overlayOpacity = Value 1\<rparr>))) False = []"
  using drag_release_closes_once
      [where release = "\<lparr>translationY = 150, velocityY = 100\<rparr>"
         and props = screenProps
         and changes = "[\<lparr>translationY = 40, velocityY = 100\<rparr>, \<lparr>translationY = 150, velocityY = 100\<rparr>]"
         and s = "\<lparr>translateY = Value 0, overlayOpacity = Value 1\<rparr>"
         and finished = True]
    drag_release_closes_once
      [where release = "\<lparr>translationY = 20, velocityY = 800\<rparr>"
         and props = screenProps
         and changes = "[\<lparr>translationY = 20, velocityY = 800\<rparr>]"
         and s = "\<lparr>translateY = Value 0, overlayOpacity = Value 1\<rparr>"
         and finished = True]
  by (simp add: screenProps_def handleClose_def)

text \<open>
  C4. Take a drag sequence whose peak downward distance is at most 100 and whose release
  speed is at most 500. Its release starts the springs towards vertical offset 0 and
  overlay opacity 1; the sequence calls no external function, and no completion callback
  is left behind that could call \<^verbatim>\<open>onClose\<close> later.
\<close>

theorem drag_below_thresholds_snaps_back:
  assumes "peakDistance changes release \<le> 100" and "\<bar>velocityY release\<bar> \<le> 500"
  shows "snd (dragSequence props changes release s) = [] \<and>
    translateY (fst (dragSequence props changes release s)) = WithSpring 0 100 8 \<and>
    overlayOpacity (fst (dragSequence props changes release s)) = WithSpring 1 100 8 \<and>
    completion (translateY (fst (dragSequence props changes release s))) finished = [] \<and>
    completion (overlayOpacity (fst (dragSequence props changes release s))) finished = []"
proof -
  from assms(1) have "translationY release \<le> 100"
    using release_le_peak [of release changes] by simp
  moreover from assms(2) have "velocityY release \<le> 500" by simp
  ultimately have "\<not> shouldClose release" by (simp add: shouldClose_def)
  then show ?thesis
    by (simp add: dragSequence_eq onFinalize_def)
qed

theorem drag_below_thresholds_snaps_back_witness:
  "peakDistance [\<lparr>translationY = 30, velocityY = 150\<rparr>, \<lparr>translationY = 80, velocityY = 90\<rparr>]
       \<lparr>translationY = 60, velocityY = - 200\<rparr> \<le> 100 \<and>
   \<bar>velocityY \<lparr>translationY = 60, velocityY = - 200\<rparr>\<bar> \<le> 500 \<and>
   dragSequence screenProps
       [\<lparr>translationY = 30, velocityY = 150\<rparr>, \<lparr>translationY = 80, velocityY = 90\<rparr>]
       \<lparr>translationY = 60, velocityY = - 200\<rparr>
       \<lparr>translateY = Value 0, overlayOpacity = Value 1\<rparr>
     = (\<lparr>translateY = WithSpring 0 100 8, overlayOpacity = WithSpring 1 100 8\<rparr>, []) \<and>
   completion (overlayOpacity (fst (dragSequence screenProps
       [\<lparr>translationY = 30, velocityY = 150\<rparr>, \<lparr>translationY = 80, velocityY = 90\<rparr>]
       \<lparr>translationY = 60, velocityY = - 200\<rparr>
       \<lparr>translateY = Value 0, overlayOpacity = Value 1\<rparr>))) True = []"
proof -
  have peak: "peakDistance [\<lparr>translationY = 30, velocityY = 150\<rparr>, \<lparr>translationY = 80, velocityY = 90\<rparr>]
       \<lparr>translationY = 60, velocityY = - 200\<rparr> \<le> 100"
    by (simp add: peakDistance_def)
  have speed: "\<bar>velocityY \<lparr>translationY = 60, velocityY = - 200\<rparr>\<bar> \<le> 500"
    by simp
  have run: "dragSequence screenProps
       [\<lparr>translationY = 30, velocityY = 150\<rparr>, \<lparr>translationY = 80, velocityY = 90\<rparr>]
       \<lparr>translationY = 60, velocityY = - 200\<rparr>
       \<lparr>translateY = Value 0, overlayOpacity = Value 1\<rparr>
     = (\<lparr>translateY = WithSpring 0 100 8, overlayOpacity = WithSpring 1 100 8\<rparr>, [])"
    using drag_below_thresholds_snaps_back [OF peak speed, of screenProps
        "\<lparr>translateY = Value 0, overlayOpacity = Value 1\<rparr>" True]
    by (simp add: prod_eq_iff)
  from peak speed run show ?thesis by simp
qed

text \<open>
  C5. The mutation's success handler starts the exit animation without a callback and
  calls \<^verbatim>\<open>router.dismissTo('/(tabs)/cart')\<close> before it returns: the navigation is not
  deferred to the animation's completion, whose callback calls nothing.
\<close>

theorem onSuccess_navigates_at_once:
  "snd (onSuccess s) = [RouterDismissTo ''/(tabs)/cart''] \<and>
   translateY (fst (onSuccess s)) = WithTiming 300 250 None \<and>
   (\<exists>c. overlayOpacity (fst (onSuccess s)) = WithTiming 0 250 (Some c)) \<and>
   completion (overlayOpacity (fst (onSuccess s))) finished = [] \<and>
   completion (translateY (fst (onSuccess s))) finished = []"
  by (simp add: onSuccess_def animateOut_def)

end
